theory Spec2Isabelle
  imports Main "HOL-Library.Sublist"
begin

section \<open>Strings\<close>

text \<open>
  A Go string is a sequence of bytes and \<open>len\<close> counts bytes; \<^typ>\<open>string\<close> is a list
  of 8-bit characters. The functions of Go's \<open>strings\<close> package that the storage
  code calls are written out here.
\<close>

definition HasPrefix :: "string \<Rightarrow> string \<Rightarrow> bool" where
  "HasPrefix s p = (length p \<le> length s \<and> take (length p) s = p)"

definition HasSuffix :: "string \<Rightarrow> string \<Rightarrow> bool" where
  "HasSuffix s p = (length p \<le> length s \<and> drop (length s - length p) s = p)"

fun Contains :: "string \<Rightarrow> string \<Rightarrow> bool" where
  "Contains [] sub = (sub = [])"
| "Contains (c # cs) sub = (HasPrefix (c # cs) sub \<or> Contains cs sub)"

definition TrimPrefix :: "string \<Rightarrow> string \<Rightarrow> string" where
  "TrimPrefix s p = (if HasPrefix s p then drop (length p) s else s)"

section \<open>Errors\<close>

datatype error =
    ClientError
  | UnmarshalTypeError
  | JSONError
  | ParseError
  | RandError
  | TimeError
  | CSVError
  | RecordFields nat
  | Panic
  | Wrapped string error

section \<open>Status values (storage/dynamo/status.go)\<close>

record StatusValue =
  Path :: string
  ContainerType :: string
  ValueType :: string
  Value :: string

text \<open>
  \<open>containsValue\<close> answers the index of the first entry equal to \<open>v\<close> in all four
  fields, or -1.
\<close>

fun containsValueFrom :: "nat \<Rightarrow> StatusValue list \<Rightarrow> StatusValue \<Rightarrow> int" where
  "containsValueFrom i [] v = - 1"
| "containsValueFrom i (val # values) v =
     (if Path v = Path val \<and> ValueType v = ValueType val
         \<and> ContainerType v = ContainerType val \<and> Value v = Value val
      then int i
      else containsValueFrom (Suc i) values v)"

definition containsValue :: "StatusValue list \<Rightarrow> StatusValue \<Rightarrow> int" where
  "containsValue values v = containsValueFrom 0 values v"

text \<open>The loop of \<open>mergeStatusValues\<close>, with \<open>ret\<close> as the accumulator.\<close>

fun mergeLoop :: "StatusValue list \<Rightarrow> StatusValue list \<Rightarrow> StatusValue list" where
  "mergeLoop ret [] = ret"
| "mergeLoop ret (srcValue # src) =
     mergeLoop (if containsValue ret srcValue < 0 then ret @ [srcValue] else ret) src"

definition mergeStatusValues :: "StatusValue list \<Rightarrow> StatusValue list \<Rightarrow> StatusValue list" where
  "mergeStatusValues dst src = mergeLoop ([] @ dst) src"

text \<open>
  \<open>filterPathPrefix\<close>: \<open>found\<close> for one path. The slice expression
  \<open>pathPrefix[1:len(pathPrefix)-1]\<close> panics when the pattern is the single byte
  \<open>%\<close> (bounds \<open>[1:0]\<close>); \<open>None\<close> is that panic.
\<close>

definition found :: "string \<Rightarrow> string \<Rightarrow> bool option" where
  "found path pathPrefix =
     (let hasPre = HasPrefix pathPrefix ''%''; hasSuf = HasSuffix pathPrefix ''%'' in
      if 3 \<le> length path \<and> hasPre \<and> hasSuf then
        (if length pathPrefix - 1 < 1 then None
         else Some (Contains path (drop 1 (take (length pathPrefix - 1) pathPrefix))))
      else if hasPre then Some (HasSuffix path (drop 1 pathPrefix))
      else if hasSuf then Some (HasPrefix path (take (length pathPrefix - 1) pathPrefix))
      else Some (path = pathPrefix))"

fun filterPathPrefix :: "StatusValue list \<Rightarrow> string \<Rightarrow> error + StatusValue list" where
  "filterPathPrefix [] pathPrefix = Inr []"
| "filterPathPrefix (v # values) pathPrefix =
     (case found (Path v) pathPrefix of
        None \<Rightarrow> Inl Panic
      | Some b \<Rightarrow>
          (case filterPathPrefix values pathPrefix of
             Inl e \<Rightarrow> Inl e
           | Inr ret \<Rightarrow> Inr (if b then v # ret else ret)))"

section \<open>The table (unnamed/part_000)\<close>

text \<open>
  One DynamoDB table holds every record, under the two-part key \<open>(pk, sk)\<close>. The Go
  structs \<open>dsDeclaration\<close>, \<open>dsGenericItem\<close>, \<open>dsPKSKOnly\<close>, \<open>dsDeclarationStatus\<close>
  and \<open>dsDecError\<close> are views of a row: each names some of the attributes below, and
  an attribute a row does not carry reads as the zero value.
\<close>

record item =
  pk :: string
  sk :: string
  body :: string
  json :: string
  dec_token :: string
  dec_type :: string
  salt :: string
  statusTime :: string
  statusID :: string
  statusActive :: bool
  statusValid :: string
  server_token :: string
  statusType :: string
  statusResons :: string
  path :: string

definition zeroItem :: item where
  "zeroItem = \<lparr>pk = [], sk = [], body = [], json = [], dec_token = [], dec_type = [],
     salt = [], statusTime = [], statusID = [], statusActive = False, statusValid = [],
     server_token = [], statusType = [], statusResons = [], path = []\<rparr>"

definition dsGenericItem :: "string \<Rightarrow> string \<Rightarrow> string \<Rightarrow> item" where
  "dsGenericItem PK SK Body = zeroItem\<lparr>pk := PK, sk := SK, body := Body\<rparr>"

text \<open>The calls made on the DynamoDB client, in the order they are made.\<close>

datatype call =
    GetItem string string
  | PutItem item
  | DeleteItem string string
  | Query string string
  | QueryIndex string string

text \<open>
  The state the storage functions act on: the rows of the table; the calls made so far;
  a schedule of client failures (one flag per call still to come, \<open>True\<close> for a call
  the service answers with an error; an exhausted schedule means no failure); the
  number of draws made from the \<open>math/rand\<close> source and of readings of the clock.
\<close>

record state =
  rows :: "item list"
  calls :: "call list"
  faults :: "bool list"
  draws :: nat
  ticks :: nat

definition clientCall :: "call \<Rightarrow> state \<Rightarrow> bool \<times> state" where
  "clientCall c s =
     (case faults s of
        [] \<Rightarrow> (False, s\<lparr>calls := calls s @ [c]\<rparr>)
      | f # fs \<Rightarrow> (f, s\<lparr>calls := calls s @ [c], faults := fs\<rparr>))"

definition sameKey :: "string \<Rightarrow> string \<Rightarrow> item \<Rightarrow> bool" where
  "sameKey p q r = (pk r = p \<and> sk r = q)"

text \<open>
  Modelled from the spec: the backing store itself (the DynamoDB service and the SDK's
  client and codec are not part of the repository). Section 4.1 gives its contract:
  put, get by key, query by primary key and secondary-key prefix, the same query on
  the inverse index, and delete. The wrappers of part_000 are written over it.
\<close>

definition AddItem :: "item \<Rightarrow> state \<Rightarrow> error option \<times> state" where
  "AddItem it s =
     (case clientCall (PutItem it) s of
        (True, s') \<Rightarrow> (Some ClientError, s')
      | (False, s') \<Rightarrow>
          (None, s'\<lparr>rows := filter (\<lambda>r. \<not> sameKey (pk it) (sk it) r) (rows s') @ [it]\<rparr>))"

definition deleteSingleItem :: "item \<Rightarrow> state \<Rightarrow> bool \<times> state" where
  "deleteSingleItem it s =
     (case clientCall (DeleteItem (pk it) (sk it)) s of
        (True, s') \<Rightarrow> (False, s')
      | (False, s') \<Rightarrow>
          (True, s'\<lparr>rows := filter (\<lambda>r. \<not> sameKey (pk it) (sk it) r) (rows s')\<rparr>))"

text \<open>A key with no row is no error: the destination struct keeps its zero value.\<close>

definition GetSingleItemPKSK :: "string \<Rightarrow> string \<Rightarrow> state \<Rightarrow> error option \<times> item \<times> state" where
  "GetSingleItemPKSK p q s =
     (case clientCall (GetItem p q) s of
        (True, s') \<Rightarrow> (Some ClientError, zeroItem, s')
      | (False, s') \<Rightarrow>
          (None, (case filter (sameKey p q) (rows s') of [] \<Rightarrow> zeroItem | r # _ \<Rightarrow> r), s'))"

definition GetReverseItems :: "string \<Rightarrow> string \<Rightarrow> state \<Rightarrow> error option \<times> item list \<times> state" where
  "GetReverseItems q beginsWith s =
     (case clientCall (QueryIndex q beginsWith) s of
        (True, s') \<Rightarrow> (Some ClientError, [], s')
      | (False, s') \<Rightarrow>
          (None, filter (\<lambda>r. sk r = q \<and> HasPrefix (pk r) beginsWith) (rows s'), s'))"

definition GetItemsSKBeginsWith :: "string \<Rightarrow> string \<Rightarrow> state \<Rightarrow> error option \<times> item list \<times> state" where
  "GetItemsSKBeginsWith p beginsWith s =
     (case clientCall (Query p beginsWith) s of
        (True, s') \<Rightarrow> (Some ClientError, [], s')
      | (False, s') \<Rightarrow>
          (None, filter (\<lambda>r. pk r = p \<and> HasPrefix (sk r) beginsWith) (rows s'), s'))"

text \<open>
  \<open>StoreDeclaration\<close> passes \<open>GetItemsSKBeginsWith\<close> a pointer to one struct where the
  other callers pass a slice. What \<open>attributevalue.UnmarshalListOfMaps\<close> does with
  the rows of the answer for such a destination is the SDK's business, so it is the
  parameter \<open>um\<close>: the error it answers and the struct it leaves. When the query
  itself fails the decoder is not reached.
\<close>

definition GetItemsSKBeginsWithStruct ::
  "(item list \<Rightarrow> error option \<times> item) \<Rightarrow> string \<Rightarrow> string \<Rightarrow> state
     \<Rightarrow> error option \<times> item \<times> state" where
  "GetItemsSKBeginsWithStruct um p beginsWith s =
     (case clientCall (Query p beginsWith) s of
        (True, s') \<Rightarrow> (Some ClientError, zeroItem, s')
      | (False, s') \<Rightarrow>
          (case um (filter (\<lambda>r. pk r = p \<and> HasPrefix (sk r) beginsWith) (rows s')) of
             (e, it) \<Rightarrow> (e, it, s')))"

section \<open>Collaborators outside the repository\<close>

record Declaration =
  Identifier :: string
  Type :: string
  Raw :: string

text \<open>
  The hash behind \<open>newHash\<close>, \<open>encoding/json\<close>, the \<open>math/rand\<close> source, the SDK's
  decoder for a struct destination, the \<open>ddm\<close> package's parser and builders and the
  clock are parameters. A decoded JSON object is a map from its keys to the encoded
  values. \<open>randRead n\<close> is the \<open>n\<close>-th draw of 32 bytes; \<open>now n\<close> is the text of the
  \<open>n\<close>-th reading of the clock, \<open>None\<close> when \<open>MarshalText\<close> fails.
  \<open>marshalDeclarationItems\<close> and \<open>marshalTokens\<close> stand for a builder fed the parsed
  declarations, finalized, and its document marshalled.
\<close>

record env =
  hashSum :: "string \<Rightarrow> string"
  jsonUnmarshal :: "string \<Rightarrow> error + (string \<rightharpoonup> string)"
  jsonMarshal :: "(string \<rightharpoonup> string) \<Rightarrow> error + string"
  randRead :: "nat \<Rightarrow> error option \<times> string"
  unmarshalStruct :: "item list \<Rightarrow> error option \<times> item"
  ParseDeclaration :: "string \<Rightarrow> error + Declaration"
  marshalDeclarationItems :: "Declaration list \<Rightarrow> error + string"
  marshalTokens :: "Declaration list \<Rightarrow> error + string"
  now :: "nat \<Rightarrow> string option"

text \<open>\<open>fmt.Sprintf("%x", b)\<close>: two lower-case hexadecimal digits per byte.\<close>

definition hexDigit :: "nat \<Rightarrow> char" where
  "hexDigit n = (if n < 10 then char_of (48 + n) else char_of (87 + n))"

definition hex :: "string \<Rightarrow> string" where
  "hex b = concat (map (\<lambda>c. [hexDigit (of_char c div 16), hexDigit (of_char c mod 16)]) b)"

section \<open>Derived documents (storage/dynamo/ddm.go)\<close>

text \<open>\<open>RetrieveDeclaration\<close> (part_001): \<open>Inl\<close> is the return of a nil declaration with an error.\<close>

definition RetrieveDeclaration :: "env \<Rightarrow> string \<Rightarrow> state \<Rightarrow> (error + Declaration) \<times> state" where
  "RetrieveDeclaration X declarationID s =
     (case GetSingleItemPKSK (''dec#'' @ declarationID) ''dec#'' s of
        (Some e, _, s') \<Rightarrow> (Inl e, s')
      | (None, declaration, s') \<Rightarrow>
          (case ParseDeclaration X (json declaration) of
             Inl e \<Rightarrow> (Inl (Wrapped ''parsing declaration'' e), s')
           | Inr d \<Rightarrow> (Inr d, s')))"

text \<open>
  The keys of the Go map \<open>enrollmentDeclarations\<close>, kept as a list without
  repetitions in the order of first insertion (Go leaves the order of iteration
  open).
\<close>

definition addKey :: "string list \<Rightarrow> string \<Rightarrow> string list" where
  "addKey ks k = (if k \<in> set ks then ks else ks @ [k])"

fun collectSetDeclarations ::
  "string list \<Rightarrow> string list \<Rightarrow> state \<Rightarrow> error option \<times> string list \<times> state" where
  "collectSetDeclarations [] enrollmentDeclarations s = (None, enrollmentDeclarations, s)"
| "collectSetDeclarations (setName # enrollmentSets) enrollmentDeclarations s =
     (case GetItemsSKBeginsWith (''set#'' @ setName) ''dec#'' s of
        (Some e, _, s') \<Rightarrow> (Some e, enrollmentDeclarations, s')
      | (None, declarations, s') \<Rightarrow>
          collectSetDeclarations enrollmentSets
            (foldl addKey enrollmentDeclarations
               (map (\<lambda>declarationID. TrimPrefix (sk declarationID) ''dec#'') declarations))
            s')"

text \<open>
  The loop over the collected identifiers. The error of \<open>RetrieveDeclaration\<close> is
  dropped by the source and \<open>dec.Raw\<close> is read next: with a nil \<open>dec\<close> that is a nil
  pointer dereference, \<open>Panic\<close> here.
\<close>

fun addDeclarationData ::
  "env \<Rightarrow> string list \<Rightarrow> Declaration list \<Rightarrow> state \<Rightarrow> error option \<times> Declaration list \<times> state" where
  "addDeclarationData X [] ds s = (None, ds, s)"
| "addDeclarationData X (declarationID # rest) ds s =
     (case RetrieveDeclaration X declarationID s of
        (Inl _, s') \<Rightarrow> (Some Panic, ds, s')
      | (Inr dec, s') \<Rightarrow>
          (case ParseDeclaration X (Raw dec) of
             Inl e \<Rightarrow> (Some (Wrapped ''parsing declaration'' e), ds, s')
           | Inr d \<Rightarrow> addDeclarationData X rest (ds @ [d]) s'))"

definition writeEnrollmentDDM :: "env \<Rightarrow> string \<Rightarrow> state \<Rightarrow> error option \<times> state" where
  "writeEnrollmentDDM X enrollmentID s =
     (case GetItemsSKBeginsWith (''enroll#'' @ enrollmentID) ''set#'' s of
        (Some e, _, s1) \<Rightarrow> (Some e, s1)
      | (None, sets, s1) \<Rightarrow>
     (case collectSetDeclarations (map (\<lambda>set. TrimPrefix (sk set) ''set#'') sets) [] s1 of
        (Some e, _, s2) \<Rightarrow> (Some e, s2)
      | (None, enrollmentDeclarations, s2) \<Rightarrow>
     (case addDeclarationData X enrollmentDeclarations [] s2 of
        (Some e, _, s3) \<Rightarrow> (Some e, s3)
      | (None, ds, s3) \<Rightarrow>
     (case marshalDeclarationItems X ds of
        Inl e \<Rightarrow> (Some e, s3)
      | Inr diJSON \<Rightarrow>
     (case AddItem (dsGenericItem (''enroll#'' @ enrollmentID) ''json'' diJSON) s3 of
        (Some e, s4) \<Rightarrow> (Some e, s4)
      | (None, s4) \<Rightarrow>
     (case marshalTokens X ds of
        Inl e \<Rightarrow> (Some e, s4)
      | Inr tiJSON \<Rightarrow>
          AddItem (dsGenericItem (''enroll#'' @ enrollmentID) ''tokens'' tiJSON) s4))))))"

text \<open>
  The loop shared by \<open>writeDeclarationDDM\<close> and \<open>writeSetDDM\<close>: recompute each
  enrollment in turn, returning at the first error.
\<close>

fun writeEnrollmentDDMs :: "env \<Rightarrow> string list \<Rightarrow> state \<Rightarrow> error option \<times> state" where
  "writeEnrollmentDDMs X [] s = (None, s)"
| "writeEnrollmentDDMs X (enrollmentID # ids) s =
     (case writeEnrollmentDDM X enrollmentID s of
        (Some e, s') \<Rightarrow> (Some e, s')
      | (None, s') \<Rightarrow> writeEnrollmentDDMs X ids s')"

text \<open>\<open>declarationEnrollmentIDs\<close> (part_003); an error of the inner query is skipped.\<close>

fun reverseEnrollments :: "item list \<Rightarrow> string list \<Rightarrow> state \<Rightarrow> string list \<times> state" where
  "reverseEnrollments [] enrollments s = (enrollments, s)"
| "reverseEnrollments (it # its) enrollments s =
     (case GetReverseItems (pk it) ''enroll#'' s of
        (Some _, _, s') \<Rightarrow> reverseEnrollments its enrollments s'
      | (None, enrolls, s') \<Rightarrow>
          reverseEnrollments its
            (enrollments @ map (\<lambda>enroll. TrimPrefix (pk enroll) ''enroll#'') enrolls) s')"

definition declarationEnrollmentIDs :: "string \<Rightarrow> state \<Rightarrow> (string list \<times> error option) \<times> state" where
  "declarationEnrollmentIDs declarationID s =
     (case GetItemsSKBeginsWith (''dec#'' @ declarationID) ''set#'' s of
        (Some e, _, s') \<Rightarrow> (([], Some e), s')
      | (None, its, s') \<Rightarrow>
          (case reverseEnrollments its [] s' of (enrollments, s'') \<Rightarrow> ((enrollments, None), s'')))"

definition RetrieveDeclarationEnrollmentIDs :: "string \<Rightarrow> state \<Rightarrow> (string list \<times> error option) \<times> state" where
  "RetrieveDeclarationEnrollmentIDs declarationID s = declarationEnrollmentIDs declarationID s"

definition RetrieveSetEnrollmentIDs :: "string \<Rightarrow> state \<Rightarrow> (string list \<times> error option) \<times> state" where
  "RetrieveSetEnrollmentIDs setName s =
     (case GetReverseItems (''set#'' @ setName) ''enroll#'' s of
        (Some e, _, s') \<Rightarrow> (([], Some e), s')
      | (None, its, s') \<Rightarrow> ((map (\<lambda>it. TrimPrefix (pk it) ''enroll#'') its, None), s'))"

definition writeDeclarationDDM :: "env \<Rightarrow> string \<Rightarrow> state \<Rightarrow> error option \<times> state" where
  "writeDeclarationDDM X declarationID s =
     (case declarationEnrollmentIDs declarationID s of
        ((_, Some e), s') \<Rightarrow> (Some e, s')
      | ((declarationIDs, None), s') \<Rightarrow> writeEnrollmentDDMs X declarationIDs s')"

definition writeSetDDM :: "env \<Rightarrow> string \<Rightarrow> state \<Rightarrow> error option \<times> state" where
  "writeSetDDM X setName s =
     (case GetItemsSKBeginsWith (''set#'' @ setName) ''enroll#'' s of
        (Some e, _, s') \<Rightarrow> (Some e, s')
      | (None, its, s') \<Rightarrow>
          writeEnrollmentDDMs X (map (\<lambda>it. TrimPrefix (sk it) ''enroll#'') its) s')"

section \<open>Declarations (unnamed/part_001)\<close>

definition dsDeclaration ::
  "string \<Rightarrow> string \<Rightarrow> string \<Rightarrow> string \<Rightarrow> string \<Rightarrow> string \<Rightarrow> item" where
  "dsDeclaration PK SK JSON Token Salt Typ =
     zeroItem\<lparr>pk := PK, sk := SK, json := JSON, dec_token := Token, salt := Salt, dec_type := Typ\<rparr>"

text \<open>
  \<open>StoreDeclaration\<close>. In the branch that makes a new salt, \<open>err\<close> is assigned the
  result of \<open>rand.Read\<close>, so the error of the lookup above it is no longer the one
  tested by \<open>if err != nil\<close> after the branch.
\<close>

definition StoreDeclaration :: "env \<Rightarrow> Declaration \<Rightarrow> state \<Rightarrow> (bool \<times> error option) \<times> state" where
  "StoreDeclaration X d s =
     (case GetItemsSKBeginsWithStruct (unmarshalStruct X) (''dec#'' @ Identifier d) ''dec#'' s of
        (err, it, s1) \<Rightarrow>
     (let tokenFound = (dec_token it \<noteq> [] \<and> salt it \<noteq> []);
          tokenMissing = \<not> tokenFound;
          token = (if tokenFound then dec_token it else []);
          drawn = randRead X (draws s1);
          creationSalt = (if tokenFound then salt it else snd drawn);
          s2 = (if tokenFound then s1 else s1\<lparr>draws := Suc (draws s1)\<rparr>);
          err' = (if tokenFound then err else fst drawn)
      in
     (case (if tokenMissing then fst drawn else None) of
        Some e \<Rightarrow> ((False, Some (Wrapped ''reading random data for creation salt'' e)), s2)
      | None \<Rightarrow>
     (case err' of
        Some e \<Rightarrow> ((False, Some (Wrapped ''reading declaration'' e)), s2)
      | None \<Rightarrow>
     (case jsonUnmarshal X (Raw d) of
        Inl e \<Rightarrow> ((False, Some e), s2)
      | Inr declaration \<Rightarrow>
     (case jsonMarshal X (declaration(''ServerToken'' := None)) of
        Inl e \<Rightarrow> ((False, Some (Wrapped ''marshaling no-token declaration'' e)), s2)
      | Inr dBytes \<Rightarrow>
     (let dHash = hex (hashSum X (dBytes @ creationSalt)) in
      if \<not> tokenMissing \<and> dHash = token then ((False, None), s2)
      else
     (case jsonMarshal X (declaration(''ServerToken'' \<mapsto> dHash)) of
        Inl e \<Rightarrow> ((False, Some (Wrapped ''marshaling declaration'' e)), s2)
      | Inr dBytes' \<Rightarrow>
     (case AddItem
             (dsDeclaration (''dec#'' @ Identifier d) ''dec#'' dBytes' dHash
                (if tokenMissing then creationSalt else salt it) (Type d)) s2 of
        (Some e, s3) \<Rightarrow> ((False, Some e), s3)
      | (None, s3) \<Rightarrow>
     (case writeDeclarationDDM X (Identifier d) s3 of
        (Some e, s4) \<Rightarrow> ((False, Some e), s4)
      | (None, s4) \<Rightarrow> ((True, None), s4)))))))))))"

fun deleteItems :: "item list \<Rightarrow> state \<Rightarrow> state" where
  "deleteItems [] s = s"
| "deleteItems (it # its) s = deleteItems its (snd (deleteSingleItem it s))"

definition DeleteDeclaration :: "string \<Rightarrow> state \<Rightarrow> (bool \<times> error option) \<times> state" where
  "DeleteDeclaration identifier s =
     (case GetSingleItemPKSK (''dec#'' @ identifier) ''dec#'' s of
        (Some e, _, s1) \<Rightarrow> ((False, Some e), s1)
      | (None, declaration, s1) \<Rightarrow>
     (case deleteSingleItem declaration s1 of
        (_, s2) \<Rightarrow>
     (case GetReverseItems (''dec#'' @ identifier) ''set#'' s2 of
        (Some e, _, s3) \<Rightarrow> ((False, Some e), s3)
      | (None, its, s3) \<Rightarrow> ((True, None), deleteItems its s3))))"

definition RetrieveDeclarations :: "state \<Rightarrow> (string list \<times> error option) \<times> state" where
  "RetrieveDeclarations s =
     (case GetReverseItems ''dec#'' ''dec#'' s of
        (Some e, _, s') \<Rightarrow> (([], Some e), s')
      | (None, declarations, s') \<Rightarrow>
          ((map (\<lambda>dec. TrimPrefix (pk dec) ''dec#'') declarations, None), s'))"

section \<open>Sets and enrollments (unnamed/part_002, unnamed/part_003)\<close>

definition RetrieveSetDeclarations :: "string \<Rightarrow> state \<Rightarrow> (string list \<times> error option) \<times> state" where
  "RetrieveSetDeclarations setName s =
     (case GetItemsSKBeginsWith (''set#'' @ setName) ''dec#'' s of
        (Some e, _, s') \<Rightarrow> (([], Some e), s')
      | (None, its, s') \<Rightarrow> ((map (\<lambda>it. TrimPrefix (sk it) ''dec#'') its, None), s'))"

text \<open>
  \<open>StoreSetDeclaration\<close>. \<open>fmt.Errorf\<close> with \<open>%w\<close> of a nil error is still an error:
  \<open>None\<close> under \<open>WrappedOpt\<close>.
\<close>

datatype wrapped = WrappedOpt string "error option"

definition StoreSetDeclaration ::
  "string \<Rightarrow> string \<Rightarrow> state \<Rightarrow> (bool \<times> (wrapped + error) option) \<times> state" where
  "StoreSetDeclaration setName declarationID s =
     (case GetSingleItemPKSK (''dec#'' @ declarationID) ''dec#'' s of
        (err, decItem, s1) \<Rightarrow>
          if err \<noteq> None
          then ((False, Some (Inl (WrappedOpt ''checking declaration'' err))), s1)
          else if json decItem = []
          then ((False, Some (Inl (WrappedOpt ''checking declaration'' err))), s1)
          else
            (case AddItem (dsGenericItem (''set#'' @ setName) (''dec#'' @ declarationID) []) s1 of
               (err', s2) \<Rightarrow> ((True, map_option Inr err'), s2)))"

definition RemoveSetDeclaration :: "string \<Rightarrow> string \<Rightarrow> state \<Rightarrow> (bool \<times> error option) \<times> state" where
  "RemoveSetDeclaration setName declarationID s =
     (case deleteSingleItem (dsGenericItem (''set#'' @ setName) (''dec#'' @ declarationID) []) s of
        (_, s') \<Rightarrow> ((True, None), s'))"

definition RetrieveDeclarationSets :: "string \<Rightarrow> state \<Rightarrow> (string list \<times> error option) \<times> state" where
  "RetrieveDeclarationSets declarationID s =
     (case GetReverseItems (''dec#'' @ declarationID) ''set#'' s of
        (Some e, _, s') \<Rightarrow> (([], Some e), s')
      | (None, its, s') \<Rightarrow> ((map (\<lambda>it. TrimPrefix (pk it) ''set#'') its, None), s'))"

definition StoreEnrollmentSet :: "env \<Rightarrow> string \<Rightarrow> string \<Rightarrow> state \<Rightarrow> (bool \<times> error option) \<times> state" where
  "StoreEnrollmentSet X enrollmentID setName s =
     (case AddItem (dsGenericItem (''enroll#'' @ enrollmentID) (''set#'' @ setName) []) s of
        (Some e, s1) \<Rightarrow> ((False, Some e), s1)
      | (None, s1) \<Rightarrow>
          (case writeEnrollmentDDM X enrollmentID s1 of (err, s2) \<Rightarrow> ((True, err), s2)))"

definition RemoveEnrollmentSet :: "env \<Rightarrow> string \<Rightarrow> string \<Rightarrow> state \<Rightarrow> (bool \<times> error option) \<times> state" where
  "RemoveEnrollmentSet X enrollmentID setName s =
     (case deleteSingleItem (dsGenericItem (''enroll#'' @ enrollmentID) (''set#'' @ setName) []) s of
        (change, s1) \<Rightarrow>
          (case writeEnrollmentDDM X enrollmentID s1 of (err, s2) \<Rightarrow> ((change, err), s2)))"

section \<open>Sample collaborators and states\<close>

text \<open>
  Stand-ins for the collaborators, used where a function is run on a concrete state.
  A sample payload is an identifier, a colon and a body; the sample codec keeps the
  payload under one key and writes the token after a bar; the sample hash is the
  identity, so tokens are equal only for equal content and salt; the sample builders
  list the identifiers, or the raw declarations, of what they were fed.
  \<open>firstRow\<close> fills the struct from the first row of the answer, the lookup
  \<open>StoreDeclaration\<close> is written for; \<open>rejectStruct\<close> is a decoder that accepts a
  list only into a slice and leaves a struct untouched.
\<close>

definition firstRow :: "item list \<Rightarrow> error option \<times> item" where
  "firstRow rs = (None, (case rs of [] \<Rightarrow> zeroItem | r # _ \<Rightarrow> r))"

definition rejectStruct :: "item list \<Rightarrow> error option \<times> item" where
  "rejectStruct rs = (Some UnmarshalTypeError, zeroItem)"

definition sampleParse :: "string \<Rightarrow> error + Declaration" where
  "sampleParse raw =
     (if CHR '':'' \<in> set raw
      then Inr \<lparr>Identifier = takeWhile (\<lambda>c. \<not> c = CHR '':'') raw, Type = ''t'', Raw = raw\<rparr>
      else Inl ParseError)"

definition sampleMarshal :: "(string \<rightharpoonup> string) \<Rightarrow> error + string" where
  "sampleMarshal m =
     Inr ((case m ''Payload'' of None \<Rightarrow> [] | Some p \<Rightarrow> p)
          @ (case m ''ServerToken'' of None \<Rightarrow> [] | Some t \<Rightarrow> ''|'' @ t))"

definition sampleEnv :: env where
  "sampleEnv =
     \<lparr>hashSum = (\<lambda>b. b),
      jsonUnmarshal = (\<lambda>raw. Inr [''Payload'' \<mapsto> raw]),
      jsonMarshal = sampleMarshal,
      randRead = (\<lambda>n. (None, replicate 32 (if n = 0 then CHR ''a'' else CHR ''b''))),
      unmarshalStruct = firstRow,
      ParseDeclaration = sampleParse,
      marshalDeclarationItems = (\<lambda>ds. Inr (concat (map (\<lambda>d. Identifier d @ '';'') ds))),
      marshalTokens = (\<lambda>ds. Inr (concat (map (\<lambda>d. Raw d @ '';'') ds))),
      now = (\<lambda>n. Some (''T'' @ replicate n (CHR ''+'')))\<rparr>"

definition emptyState :: state where
  "emptyState = \<lparr>rows = [], calls = [], faults = [], draws = 0, ticks = 0\<rparr>"

definition D1 :: Declaration where
  "D1 = \<lparr>Identifier = ''D1'', Type = ''t'', Raw = ''D1:{}''\<rparr>"

text \<open>\<open>RetrieveDeclarationItemsJSON\<close> and \<open>RetrieveTokensJSON\<close> (ddm.go) read the derived documents.\<close>

definition RetrieveDeclarationItemsJSON :: "string \<Rightarrow> state \<Rightarrow> (string \<times> error option) \<times> state" where
  "RetrieveDeclarationItemsJSON enrollmentID s =
     (case GetSingleItemPKSK (''enroll#'' @ enrollmentID) ''json'' s of
        (Some e, _, s') \<Rightarrow> (([], Some e), s')
      | (None, it, s') \<Rightarrow> ((body it, None), s'))"

definition RetrieveTokensJSON :: "string \<Rightarrow> state \<Rightarrow> (string \<times> error option) \<times> state" where
  "RetrieveTokensJSON enrollmentID s =
     (case GetSingleItemPKSK (''enroll#'' @ enrollmentID) ''tokens'' s of
        (Some e, _, s') \<Rightarrow> (([], Some e), s')
      | (None, it, s') \<Rightarrow> ((body it, None), s'))"

text \<open>
  The scenario of the specification: declaration \<open>D1\<close> stored, linked to the set \<open>G1\<close>,
  and the enrollment \<open>EN1\<close> linked to \<open>G1\<close>, through the storage functions, starting
  from the empty table. \<open>memberState\<close> is the same without the link from \<open>G1\<close> to
  \<open>D1\<close>.
\<close>

definition storedState :: state where
  "storedState = snd (StoreDeclaration sampleEnv D1 emptyState)"

definition memberState :: state where
  "memberState = snd (StoreEnrollmentSet sampleEnv ''EN1'' ''G1'' storedState)"

definition graphState :: state where
  "graphState =
     snd (StoreEnrollmentSet sampleEnv ''EN1'' ''G1''
       (snd (StoreSetDeclaration ''G1'' ''D1'' storedState)))"

text \<open>
  A table for the cascade of \<open>writeSetDDM\<close>: the scenario rows, three enrollments
  \<open>A\<close>, \<open>B\<close>, \<open>C\<close> linked to \<open>G1\<close>, and the rows \<open>(set#G1, enroll#...)\<close> that the
  query of \<open>writeSetDDM\<close> selects. The seventh client call fails: the first query of
  the recompute of \<open>B\<close>.
\<close>

definition cascadeState :: state where
  "cascadeState =
     \<lparr>rows = rows storedState @
        [dsGenericItem ''set#G1'' ''dec#D1'' [],
         dsGenericItem ''enroll#A'' ''set#G1'' [],
         dsGenericItem ''enroll#B'' ''set#G1'' [],
         dsGenericItem ''enroll#C'' ''set#G1'' [],
         dsGenericItem ''set#G1'' ''enroll#A'' [],
         dsGenericItem ''set#G1'' ''enroll#B'' [],
         dsGenericItem ''set#G1'' ''enroll#C'' []],
      calls = [],
      faults = [False, False, False, False, False, False, True],
      draws = 1, ticks = 0\<rparr>"

text \<open>
  The states the cascade goes through: after the query of \<open>writeSetDDM\<close>, after the
  recompute of \<open>A\<close>, and after the failed first query of the recompute of \<open>B\<close>.
\<close>

definition cascadeState1 :: state where
  "cascadeState1 =
     cascadeState\<lparr>calls := [Query ''set#G1'' ''enroll#''],
       faults := [False, False, False, False, False, True]\<rparr>"

definition cascadeState2 :: state where
  "cascadeState2 =
     cascadeState
       \<lparr>rows := rows cascadeState @
          [dsGenericItem ''enroll#A'' ''json'' ''D1;'',
           dsGenericItem ''enroll#A'' ''tokens''
             (''D1:{}|'' @ hex (''D1:{}'' @ replicate 32 (CHR ''a'')) @ '';'')],
        calls := [Query ''set#G1'' ''enroll#'', Query ''enroll#A'' ''set#'',
           Query ''set#G1'' ''dec#'', GetItem ''dec#D1'' ''dec#'',
           PutItem (dsGenericItem ''enroll#A'' ''json'' ''D1;''),
           PutItem (dsGenericItem ''enroll#A'' ''tokens''
             (''D1:{}|'' @ hex (''D1:{}'' @ replicate 32 (CHR ''a'')) @ '';''))],
        faults := [True]\<rparr>"

definition cascadeState3 :: state where
  "cascadeState3 =
     cascadeState2\<lparr>calls := calls cascadeState2 @ [Query ''enroll#B'' ''set#''], faults := []\<rparr>"

section \<open>Facts about the string functions\<close>

lemma HasPrefix_iff_prefix: "HasPrefix s p \<longleftrightarrow> prefix p s"
  unfolding HasPrefix_def prefix_def
proof
  assume "length p \<le> length s \<and> take (length p) s = p"
  then have "s = p @ drop (length p) s"
    by (metis append_take_drop_id)
  then show "\<exists>zs. s = p @ zs" ..
next
  assume "\<exists>zs. s = p @ zs"
  then show "length p \<le> length s \<and> take (length p) s = p" by auto
qed

lemma HasSuffix_iff_suffix: "HasSuffix s p \<longleftrightarrow> suffix p s"
  unfolding HasSuffix_def suffix_def
proof
  assume "length p \<le> length s \<and> drop (length s - length p) s = p"
  then have "s = take (length s - length p) s @ p"
    by (metis append_take_drop_id)
  then show "\<exists>zs. s = zs @ p" ..
next
  assume "\<exists>zs. s = zs @ p"
  then show "length p \<le> length s \<and> drop (length s - length p) s = p" by auto
qed

lemma Contains_iff_sublist: "Contains s sub \<longleftrightarrow> sublist sub s"
proof (induction s)
  case Nil
  then show ?case by auto
next
  case (Cons c cs)
  then show ?case
    by (simp add: HasPrefix_iff_prefix sublist_Cons_right)
qed

section \<open>Merging status values\<close>

lemma containsValueFrom_neg: "containsValueFrom i vs v < 0 \<longleftrightarrow> v \<notin> set vs"
  by (induction vs arbitrary: i) auto

lemma containsValue_neg: "containsValue vs v < 0 \<longleftrightarrow> v \<notin> set vs"
  by (simp add: containsValue_def containsValueFrom_neg)

lemma mergeLoop_prefix: "prefix ret (mergeLoop ret src)"
proof (induction src arbitrary: ret)
  case Nil
  then show ?case by simp
next
  case (Cons s src)
  have "prefix ret (if containsValue ret s < 0 then ret @ [s] else ret)" by simp
  also have "prefix \<dots> (mergeLoop (if containsValue ret s < 0 then ret @ [s] else ret) src)"
    by (rule Cons.IH)
  finally show ?case by simp
qed

lemma mergeLoop_set: "set (mergeLoop ret src) = set ret \<union> set src"
  by (induction src arbitrary: ret) (auto simp: containsValue_neg)

lemma mergeLoop_distinct: "distinct ret \<Longrightarrow> distinct (mergeLoop ret src)"
  by (induction src arbitrary: ret) (auto simp: containsValue_neg)

lemma mergeLoop_count_old:
  "v \<in> set ret \<Longrightarrow> count_list (mergeLoop ret src) v = count_list ret v"
proof (induction src arbitrary: ret)
  case Nil
  then show ?case by simp
next
  case (Cons s src)
  show ?case
  proof (cases "containsValue ret s < 0")
    case True
    then have "s \<noteq> v" using Cons.prems by (auto simp: containsValue_neg)
    moreover have "v \<in> set (ret @ [s])" using Cons.prems by simp
    ultimately show ?thesis using True Cons.IH [of "ret @ [s]"] by simp
  next
    case False
    then show ?thesis using Cons by simp
  qed
qed

lemma distinct_count_list_one: "distinct xs \<Longrightarrow> x \<in> set xs \<Longrightarrow> count_list xs x = 1"
  by (induction xs) auto

text \<open>
  C6. Merging reported values into the stored value set: the stored entries stay, in
  order, at the front of the result (nothing is removed); the result holds exactly the
  stored and the reported tuples; a tuple that is already stored is not added again
  (its number of occurrences is unchanged, so a duplicate-free set stays
  duplicate-free and holds the tuple exactly once); a tuple that differs from every
  stored entry in some field is appended at the end.
\<close>

theorem mergeStatusValues_dedup_monotone:
  "prefix dst (mergeStatusValues dst src)
   \<and> set (mergeStatusValues dst src) = set dst \<union> set src
   \<and> (distinct dst \<longrightarrow> distinct (mergeStatusValues dst src))
   \<and> (v \<in> set dst \<longrightarrow> mergeStatusValues dst [v] = dst
        \<and> count_list (mergeStatusValues dst src) v = count_list dst v)
   \<and> (v \<notin> set dst \<longrightarrow> mergeStatusValues dst [v] = dst @ [v])
   \<and> (distinct dst \<and> v \<in> set dst \<union> set src \<longrightarrow> count_list (mergeStatusValues dst src) v = 1)"
proof -
  have d: "distinct dst \<Longrightarrow> distinct (mergeStatusValues dst src)"
    by (simp add: mergeStatusValues_def mergeLoop_distinct)
  have s: "set (mergeStatusValues dst src) = set dst \<union> set src"
    by (simp add: mergeStatusValues_def mergeLoop_set)
  have one: "distinct dst \<and> v \<in> set dst \<union> set src \<Longrightarrow> count_list (mergeStatusValues dst src) v = 1"
    using d s by (simp add: distinct_count_list_one)
  show ?thesis
    using d s one
    by (auto simp: mergeStatusValues_def mergeLoop_prefix containsValue_neg mergeLoop_count_old)
qed

theorem mergeStatusValues_dedup_monotone_witness:
  "distinct [\<lparr>Path = ''.a'', ContainerType = ''dict'', ValueType = ''string'', Value = ''1''\<rparr>]
   \<and> mergeStatusValues
        [\<lparr>Path = ''.a'', ContainerType = ''dict'', ValueType = ''string'', Value = ''1''\<rparr>]
        [\<lparr>Path = ''.a'', ContainerType = ''dict'', ValueType = ''string'', Value = ''1''\<rparr>]
      = [\<lparr>Path = ''.a'', ContainerType = ''dict'', ValueType = ''string'', Value = ''1''\<rparr>]
   \<and> mergeStatusValues
        [\<lparr>Path = ''.a'', ContainerType = ''dict'', ValueType = ''string'', Value = ''1''\<rparr>]
        [\<lparr>Path = ''.a'', ContainerType = ''dict'', ValueType = ''string'', Value = ''2''\<rparr>]
      = [\<lparr>Path = ''.a'', ContainerType = ''dict'', ValueType = ''string'', Value = ''1''\<rparr>,
         \<lparr>Path = ''.a'', ContainerType = ''dict'', ValueType = ''string'', Value = ''2''\<rparr>]
   \<and> count_list
        (mergeStatusValues
          [\<lparr>Path = ''.a'', ContainerType = ''dict'', ValueType = ''string'', Value = ''1''\<rparr>]
          [\<lparr>Path = ''.a'', ContainerType = ''dict'', ValueType = ''string'', Value = ''1''\<rparr>,
           \<lparr>Path = ''.a'', ContainerType = ''dict'', ValueType = ''string'', Value = ''2''\<rparr>])
        \<lparr>Path = ''.a'', ContainerType = ''dict'', ValueType = ''string'', Value = ''1''\<rparr> = 1"
  using
    mergeStatusValues_dedup_monotone
      [of "[\<lparr>Path = ''.a'', ContainerType = ''dict'', ValueType = ''string'', Value = ''1''\<rparr>]"
          "[\<lparr>Path = ''.a'', ContainerType = ''dict'', ValueType = ''string'', Value = ''1''\<rparr>,
            \<lparr>Path = ''.a'', ContainerType = ''dict'', ValueType = ''string'', Value = ''2''\<rparr>]"
          "\<lparr>Path = ''.a'', ContainerType = ''dict'', ValueType = ''string'', Value = ''1''\<rparr>"]
    mergeStatusValues_dedup_monotone
      [of "[\<lparr>Path = ''.a'', ContainerType = ''dict'', ValueType = ''string'', Value = ''1''\<rparr>]"
          "[]"
          "\<lparr>Path = ''.a'', ContainerType = ''dict'', ValueType = ''string'', Value = ''2''\<rparr>"]
  by simp

section \<open>Path filtering\<close>

lemma HasPrefix_pct_Cons [simp]: "HasPrefix (c # s) ''%'' \<longleftrightarrow> c = CHR ''%''"
  by (auto simp: HasPrefix_def)

lemma HasPrefix_Nil [simp]: "HasPrefix [] ''%'' = False"
  by (simp add: HasPrefix_def)

lemma HasSuffix_pct_snoc [simp]: "HasSuffix (s @ [c]) ''%'' \<longleftrightarrow> c = CHR ''%''"
  by (auto simp: HasSuffix_iff_suffix)

lemma HasSuffix_pct_iff: "HasSuffix s ''%'' \<longleftrightarrow> s \<noteq> [] \<and> last s = CHR ''%''"
  by (cases s rule: rev_cases) (auto simp: HasSuffix_iff_suffix)

lemma found_both:
  "3 \<le> length p \<or> 3 \<le> length foo \<Longrightarrow> found p (''%'' @ foo @ ''%'') = Some (sublist foo p)"
proof (cases "3 \<le> length p")
  case True
  have "HasSuffix (CHR ''%'' # foo @ ''%'') ''%''"
    using HasSuffix_pct_snoc [of "CHR ''%'' # foo" "CHR ''%''"] by simp
  then show ?thesis using True
    by (simp add: found_def Let_def Contains_iff_sublist)
next
  case False
  assume "3 \<le> length p \<or> 3 \<le> length foo"
  with False have l: "length p < length foo" by simp
  then have "\<not> sublist foo p"
    by (auto simp: sublist_def)
  moreover have "\<not> suffix (foo @ ''%'') p"
    using l by (auto simp: suffix_def)
  ultimately show ?thesis using False
    by (simp add: found_def Let_def HasSuffix_iff_suffix)
qed

lemma found_prefix:
  "foo \<noteq> [] \<Longrightarrow> hd foo \<noteq> CHR ''%'' \<Longrightarrow> found p (foo @ ''%'') = Some (prefix foo p)"
  by (cases foo) (simp_all add: found_def Let_def HasSuffix_pct_iff HasPrefix_iff_prefix)

lemma found_suffix:
  "foo \<noteq> [] \<Longrightarrow> last foo \<noteq> CHR ''%'' \<Longrightarrow> found p (''%'' @ foo) = Some (suffix foo p)"
proof -
  assume "foo \<noteq> []" "last foo \<noteq> CHR ''%''"
  then have "\<not> HasSuffix (''%'' @ foo) ''%''"
    by (simp add: HasSuffix_pct_iff)
  then show ?thesis
    by (simp add: found_def Let_def HasSuffix_iff_suffix [of p])
qed

lemma found_exact:
  "\<not> prefix ''%'' pat \<Longrightarrow> \<not> suffix ''%'' pat \<Longrightarrow> found p pat = Some (p = pat)"
  by (simp add: found_def Let_def HasSuffix_iff_suffix HasPrefix_iff_prefix)

lemma filterPathPrefix_filter:
  "list_all (\<lambda>v. found (Path v) pat = Some (P (Path v))) vs
   \<Longrightarrow> filterPathPrefix vs pat = Inr (filter (\<lambda>v. P (Path v)) vs)"
  by (induction vs) auto

text \<open>
  C7. Path filtering by pattern. The substring branch is guarded by
  \<open>len(v.Path) >= 3\<close>, the length of the path, where the slice
  \<open>pathPrefix[1:len(pathPrefix)-1]\<close> it guards needs the length of the pattern. So the
  path \<open>ab\<close>, which contains \<open>ab\<close>, is not selected by the pattern \<open>%ab%\<close> (it is
  compared as a suffix, marker included), while the three-byte path \<open>abc\<close> is selected
  by \<open>%abc%\<close>; and the pattern \<open>%\<close>, a prefix pattern with the empty prefix,
  selects the path \<open>ab\<close> but panics on the path \<open>abc\<close>.
\<close>

theorem filterPathPrefix_guard_tests_path:
  "sublist ''ab'' (Path \<lparr>Path = ''ab'', ContainerType = [], ValueType = [], Value = []\<rparr>)
   \<and> filterPathPrefix [\<lparr>Path = ''ab'', ContainerType = [], ValueType = [], Value = []\<rparr>] ''%ab%''
       = Inr []
   \<and> filterPathPrefix [\<lparr>Path = ''abc'', ContainerType = [], ValueType = [], Value = []\<rparr>] ''%abc%''
       = Inr [\<lparr>Path = ''abc'', ContainerType = [], ValueType = [], Value = []\<rparr>]
   \<and> filterPathPrefix [\<lparr>Path = ''ab'', ContainerType = [], ValueType = [], Value = []\<rparr>] ''%''
       = Inr [\<lparr>Path = ''ab'', ContainerType = [], ValueType = [], Value = []\<rparr>]
   \<and> filterPathPrefix [\<lparr>Path = ''abc'', ContainerType = [], ValueType = [], Value = []\<rparr>] ''%''
       = Inl Panic"
  by (simp add: found_def Let_def HasPrefix_def HasSuffix_def)

section \<open>Hexadecimal tokens\<close>

lemma hexDigit_inj: "m < 16 \<Longrightarrow> n < 16 \<Longrightarrow> hexDigit m = hexDigit n \<Longrightarrow> m = n"
  by (auto simp: hexDigit_def char_of_eq_iff take_bit_eq_mod split: if_splits)

lemma of_char_div_mod_eq:
  fixes c d :: char
  assumes "(of_char c :: nat) div 16 = of_char d div 16" "(of_char c :: nat) mod 16 = of_char d mod 16"
  shows "c = d"
proof -
  have "(of_char c :: nat) = of_char d"
    using assms by (metis div_mult_mod_eq)
  then show ?thesis by simp
qed

lemma hex_inj: "hex a = hex b \<longleftrightarrow> a = b"
proof (induction a arbitrary: b)
  case Nil
  then show ?case by (cases b) (auto simp: hex_def)
next
  case (Cons c a)
  show ?case
  proof (cases b)
    case Nil
    then show ?thesis by (simp add: hex_def)
  next
    case (Cons d b')
    have lt: "(of_char x :: nat) div 16 < 16" "(of_char x :: nat) mod 16 < 16" for x :: char
      using nat_of_char_less_256 [of x] by (simp_all add: less_mult_imp_div_less)
    have "hex (c # a) = hex (d # b') \<longleftrightarrow>
        hexDigit (of_char c div 16) = hexDigit (of_char d div 16)
        \<and> hexDigit (of_char c mod 16) = hexDigit (of_char d mod 16) \<and> hex a = hex b'"
      by (simp add: hex_def)
    also have "\<dots> \<longleftrightarrow> c = d \<and> a = b'"
      using Cons.IH [of b'] hexDigit_inj lt of_char_div_mod_eq by blast
    finally show ?thesis using Cons by simp
  qed
qed

lemma hex_Nil_iff: "hex a = [] \<longleftrightarrow> a = []"
  using hex_inj [of a "[]"] by (simp add: hex_def)

section \<open>Running the storage functions on the sample states\<close>

lemma HasPrefix_simps:
  "HasPrefix s [] = True"
  "HasPrefix [] (c # p) = False"
  "HasPrefix (a # s) (c # p) = (a = c \<and> HasPrefix s p)"
  by (auto simp: HasPrefix_def)

lemma TrimPrefix_simps:
  "TrimPrefix s [] = s"
  "TrimPrefix [] (c # p) = []"
  "TrimPrefix (a # s) (c # p) =
     (if a = c \<and> HasPrefix s p then TrimPrefix s p else a # s)"
  by (auto simp: TrimPrefix_def HasPrefix_def)

lemmas table_defs =
  clientCall_def AddItem_def deleteSingleItem_def GetSingleItemPKSK_def GetReverseItems_def
  GetItemsSKBeginsWith_def GetItemsSKBeginsWithStruct_def sameKey_def zeroItem_def
  dsGenericItem_def dsDeclaration_def HasPrefix_simps TrimPrefix_simps

lemmas sample_defs =
  sampleEnv_def sampleParse_def sampleMarshal_def firstRow_def emptyState_def D1_def
  hex_inj hex_Nil_iff Let_def

lemmas storage_defs =
  RetrieveDeclaration_def addKey_def writeEnrollmentDDM_def declarationEnrollmentIDs_def
  writeDeclarationDDM_def writeSetDDM_def StoreDeclaration_def DeleteDeclaration_def
  RetrieveDeclarations_def RetrieveSetDeclarations_def StoreSetDeclaration_def
  RemoveSetDeclaration_def RetrieveDeclarationSets_def StoreEnrollmentSet_def
  RemoveEnrollmentSet_def RetrieveDeclarationEnrollmentIDs_def RetrieveSetEnrollmentIDs_def
  RetrieveDeclarationItemsJSON_def RetrieveTokensJSON_def

lemma storedState_eq:
  "storedState =
     \<lparr>rows = [dsDeclaration ''dec#D1'' ''dec#'' (''D1:{}|'' @ hex (''D1:{}'' @ replicate 32 (CHR ''a'')))
        (hex (''D1:{}'' @ replicate 32 (CHR ''a''))) (replicate 32 (CHR ''a'')) ''t''],
      calls = [Query ''dec#D1'' ''dec#'',
        PutItem (dsDeclaration ''dec#D1'' ''dec#'' (''D1:{}|'' @ hex (''D1:{}'' @ replicate 32 (CHR ''a'')))
        (hex (''D1:{}'' @ replicate 32 (CHR ''a''))) (replicate 32 (CHR ''a'')) ''t''),
        Query ''dec#D1'' ''set#''],
      faults = [], draws = 1, ticks = 0\<rparr>"
  by (simp add: storedState_def table_defs storage_defs sample_defs)


lemma memberState_eq:
  "memberState =
     storedState
       \<lparr>rows := rows storedState @
          [dsGenericItem ''enroll#EN1'' ''set#G1'' [],
           dsGenericItem ''enroll#EN1'' ''json'' [],
           dsGenericItem ''enroll#EN1'' ''tokens'' []],
        calls := calls storedState @
          [PutItem (dsGenericItem ''enroll#EN1'' ''set#G1'' []),
           Query ''enroll#EN1'' ''set#'', Query ''set#G1'' ''dec#'',
           PutItem (dsGenericItem ''enroll#EN1'' ''json'' []),
           PutItem (dsGenericItem ''enroll#EN1'' ''tokens'' [])]\<rparr>"
  by (simp add: memberState_def storedState_eq table_defs storage_defs sample_defs)

lemma graphState_eq:
  "graphState =
     storedState
       \<lparr>rows := rows storedState @
          [dsGenericItem ''set#G1'' ''dec#D1'' [],
           dsGenericItem ''enroll#EN1'' ''set#G1'' [],
           dsGenericItem ''enroll#EN1'' ''json'' ''D1;'',
           dsGenericItem ''enroll#EN1'' ''tokens''
             (''D1:{}|'' @ hex (''D1:{}'' @ replicate 32 (CHR ''a'')) @ '';'')],
        calls := calls storedState @
          [GetItem ''dec#D1'' ''dec#'',
           PutItem (dsGenericItem ''set#G1'' ''dec#D1'' []),
           PutItem (dsGenericItem ''enroll#EN1'' ''set#G1'' []),
           Query ''enroll#EN1'' ''set#'', Query ''set#G1'' ''dec#'',
           GetItem ''dec#D1'' ''dec#'',
           PutItem (dsGenericItem ''enroll#EN1'' ''json'' ''D1;''),
           PutItem (dsGenericItem ''enroll#EN1'' ''tokens''
             (''D1:{}|'' @ hex (''D1:{}'' @ replicate 32 (CHR ''a'')) @ '';''))]\<rparr>"
  by (simp add: graphState_def storedState_eq table_defs storage_defs sample_defs)

text \<open>
  C4. The enrollments of a declaration. In the scenario state the set \<open>G1\<close> contains
  \<open>D1\<close> (\<open>RetrieveDeclarationSets\<close>) and \<open>EN1\<close> is a member of \<open>G1\<close>
  (\<open>RetrieveSetEnrollmentIDs\<close>), so the claim asks for \<open>EN1\<close> in the answer for
  \<open>D1\<close>. \<open>declarationEnrollmentIDs\<close> answers the empty list: its first query looks
  for rows with primary key \<open>dec#D1\<close> and a secondary key starting \<open>set#\<close>, while
  the edge is stored as \<open>(set#G1, dec#D1)\<close> and is found only through the inverse
  index, which \<open>RetrieveDeclarationSets\<close> uses.
\<close>

theorem declarationEnrollmentIDs_misses_member:
  "fst (RetrieveDeclarationSets ''D1'' graphState) = ([''G1''], None)
   \<and> fst (RetrieveSetEnrollmentIDs ''G1'' graphState) = ([''EN1''], None)
   \<and> fst (RetrieveDeclarationEnrollmentIDs ''D1'' graphState) = ([], None)"
  by (simp add: graphState_eq storedState_eq table_defs storage_defs)

text \<open>
  C2. Storing or removing a set-declaration edge. \<open>StoreSetDeclaration\<close> makes two
  client calls, the check of the declaration and the put of the edge, and
  \<open>RemoveSetDeclaration\<close> one, the delete; neither calls \<open>writeSetDDM\<close>. The manifest
  of the member \<open>EN1\<close> is the same before and after, and differs from what
  \<open>writeEnrollmentDDM\<close> would write for it in the new graph.
\<close>

theorem StoreSetDeclaration_no_recompute:
  "fst (StoreSetDeclaration ''G1'' ''D1'' memberState) = (True, None)
   \<and> calls (snd (StoreSetDeclaration ''G1'' ''D1'' memberState))
       = calls memberState
         @ [GetItem ''dec#D1'' ''dec#'', PutItem (dsGenericItem ''set#G1'' ''dec#D1'' [])]
   \<and> fst (RetrieveDeclarationItemsJSON ''EN1'' memberState) = ([], None)
   \<and> fst (RetrieveDeclarationItemsJSON ''EN1''
            (snd (StoreSetDeclaration ''G1'' ''D1'' memberState))) = ([], None)
   \<and> fst (RetrieveDeclarationItemsJSON ''EN1''
            (snd (writeEnrollmentDDM sampleEnv ''EN1''
              (snd (StoreSetDeclaration ''G1'' ''D1'' memberState))))) = (''D1;'', None)
   \<and> fst (RemoveSetDeclaration ''G1'' ''D1'' graphState) = (True, None)
   \<and> calls (snd (RemoveSetDeclaration ''G1'' ''D1'' graphState))
       = calls graphState @ [DeleteItem ''set#G1'' ''dec#D1'']
   \<and> fst (RetrieveDeclarationItemsJSON ''EN1''
            (snd (RemoveSetDeclaration ''G1'' ''D1'' graphState))) = (''D1;'', None)
   \<and> fst (RetrieveDeclarationItemsJSON ''EN1''
            (snd (writeEnrollmentDDM sampleEnv ''EN1''
              (snd (RemoveSetDeclaration ''G1'' ''D1'' graphState))))) = ([], None)"
  by (simp add: memberState_eq graphState_eq storedState_eq table_defs storage_defs sample_defs)

text \<open>
  C3. Deleting a declaration. \<open>DeleteDeclaration\<close> removes the record of \<open>D1\<close> and
  its edge to \<open>G1\<close>, and makes no further call: the manifest of \<open>EN1\<close> still lists
  \<open>D1\<close> afterwards, where a recompute would leave it empty.
\<close>

theorem DeleteDeclaration_no_recompute:
  "fst (DeleteDeclaration ''D1'' graphState) = (True, None)
   \<and> calls (snd (DeleteDeclaration ''D1'' graphState))
       = calls graphState
         @ [GetItem ''dec#D1'' ''dec#'', DeleteItem ''dec#D1'' ''dec#'',
            QueryIndex ''dec#D1'' ''set#'', DeleteItem ''set#G1'' ''dec#D1'']
   \<and> fst (RetrieveDeclarations (snd (DeleteDeclaration ''D1'' graphState))) = ([], None)
   \<and> fst (RetrieveSetDeclarations ''G1'' (snd (DeleteDeclaration ''D1'' graphState))) = ([], None)
   \<and> fst (RetrieveDeclarationItemsJSON ''EN1'' graphState) = (''D1;'', None)
   \<and> fst (RetrieveDeclarationItemsJSON ''EN1'' (snd (DeleteDeclaration ''D1'' graphState)))
       = (''D1;'', None)
   \<and> fst (RetrieveDeclarationItemsJSON ''EN1''
            (snd (writeEnrollmentDDM sampleEnv ''EN1'' (snd (DeleteDeclaration ''D1'' graphState)))))
       = ([], None)"
  by (simp add: graphState_eq storedState_eq table_defs storage_defs sample_defs)

text \<open>
  C1. Storing an unchanged declaration again. With the lookup answered, the second
  store returns \<open>(false, nil)\<close> after its one query. When the lookup query fails
  (whatever the decoder \<open>um\<close>), its error is overwritten by the result of
  \<open>rand.Read\<close>: the store goes on as a first-time store, puts a new record and runs
  the cascade, and returns \<open>(true, nil)\<close>.
\<close>

theorem StoreDeclaration_restore_after_failed_lookup:
  "StoreDeclaration sampleEnv D1 storedState
     = ((False, None), storedState\<lparr>calls := calls storedState @ [Query ''dec#D1'' ''dec#'']\<rparr>)
   \<and> fst (StoreDeclaration (sampleEnv\<lparr>unmarshalStruct := um\<rparr>) D1 (storedState\<lparr>faults := [True]\<rparr>))
       = (True, None)
   \<and> calls (snd (StoreDeclaration (sampleEnv\<lparr>unmarshalStruct := um\<rparr>) D1
                  (storedState\<lparr>faults := [True]\<rparr>)))
       = calls storedState
         @ [Query ''dec#D1'' ''dec#'',
            PutItem (dsDeclaration ''dec#D1'' ''dec#''
               (''D1:{}|'' @ hex (''D1:{}'' @ replicate 32 (CHR ''b'')))
               (hex (''D1:{}'' @ replicate 32 (CHR ''b''))) (replicate 32 (CHR ''b'')) ''t''),
            Query ''dec#D1'' ''set#'']"
  by (simp add: storedState_eq table_defs storage_defs sample_defs)

text \<open>
  C5. The creation salt. The stored record of \<open>D1\<close> carries the first draw. After a
  second store of the same declaration whose lookup query failed, the record carries
  the second draw; and so it does, with no failure at all, when the decoder rejects
  the struct destination (\<open>rejectStruct\<close>), since the lookup then never yields the
  stored record.
\<close>

theorem StoreDeclaration_salt_regenerated:
  "map salt (rows storedState) = [replicate 32 (CHR ''a'')]
   \<and> map salt (rows (snd (StoreDeclaration (sampleEnv\<lparr>unmarshalStruct := um\<rparr>) D1
                             (storedState\<lparr>faults := [True]\<rparr>))))
       = [replicate 32 (CHR ''b'')]
   \<and> map salt (rows (snd (StoreDeclaration (sampleEnv\<lparr>unmarshalStruct := rejectStruct\<rparr>) D1
                             storedState)))
       = [replicate 32 (CHR ''b'')]"
  by (simp add: storedState_eq table_defs storage_defs sample_defs rejectStruct_def)

section \<open>Cascades\<close>

lemma clientCall_frame:
  "clientCall c s = (b, s') \<Longrightarrow> rows s' = rows s \<and> calls s' = calls s @ [c]"
  by (auto simp: clientCall_def split: list.splits)

lemma GetItemsSKBeginsWith_frame:
  "GetItemsSKBeginsWith p b s = (e, its, s') \<Longrightarrow> rows s' = rows s \<and> prefix (calls s) (calls s')"
  by (auto simp: GetItemsSKBeginsWith_def split: prod.splits bool.splits dest!: clientCall_frame)

lemma GetSingleItemPKSK_frame:
  "GetSingleItemPKSK p q s = (e, it, s') \<Longrightarrow> rows s' = rows s \<and> prefix (calls s) (calls s')"
  by (auto simp: GetSingleItemPKSK_def split: prod.splits bool.splits dest!: clientCall_frame)

lemma AddItem_frame:
  "AddItem it s = (e, s') \<Longrightarrow>
     prefix (calls s) (calls s') \<and> (\<forall>r \<in> set (rows s). pk r \<noteq> pk it \<longrightarrow> r \<in> set (rows s'))"
  by (auto simp: AddItem_def sameKey_def split: prod.splits bool.splits dest!: clientCall_frame)

lemma collectSetDeclarations_frame:
  "collectSetDeclarations sets acc s = (e, ks, s') \<Longrightarrow>
     rows s' = rows s \<and> prefix (calls s) (calls s')"
proof (induction sets arbitrary: acc s)
  case Nil
  then show ?case by simp
next
  case (Cons setName sets)
  obtain e1 ds s1 where q: "GetItemsSKBeginsWith (''set#'' @ setName) ''dec#'' s = (e1, ds, s1)"
    by (metis prod_cases3)
  note f = GetItemsSKBeginsWith_frame [OF q]
  show ?case
  proof (cases e1)
    case None
    with Cons.prems q obtain acc' where "collectSetDeclarations sets acc' s1 = (e, ks, s')"
      by auto
    from Cons.IH [OF this] f show ?thesis
      using prefix_order.order_trans by auto
  next
    case (Some a)
    with Cons.prems q f show ?thesis by auto
  qed
qed

lemma RetrieveDeclaration_frame:
  "RetrieveDeclaration X d s = (r, s') \<Longrightarrow> rows s' = rows s \<and> prefix (calls s) (calls s')"
  by (auto simp: RetrieveDeclaration_def split: prod.splits option.splits sum.splits
      dest!: GetSingleItemPKSK_frame)

lemma addDeclarationData_frame:
  "addDeclarationData X ids ds s = (e, ds', s') \<Longrightarrow>
     rows s' = rows s \<and> prefix (calls s) (calls s')"
proof (induction ids arbitrary: ds s)
  case Nil
  then show ?case by simp
next
  case (Cons d ids)
  obtain r s1 where q: "RetrieveDeclaration X d s = (r, s1)"
    by (metis surj_pair)
  note f = RetrieveDeclaration_frame [OF q]
  show ?case
  proof (cases r)
    case (Inl a)
    with Cons.prems q f show ?thesis by auto
  next
    case (Inr dec)
    show ?thesis
    proof (cases "ParseDeclaration X (Raw dec)")
      case (Inl a)
      with Cons.prems q f Inr show ?thesis by auto
    next
      case (Inr d')
      with Cons.prems q \<open>r = Inr dec\<close>
      have "addDeclarationData X ids (ds @ [d']) s1 = (e, ds', s')" by simp
      from Cons.IH [OF this] f show ?thesis
        using prefix_order.order_trans by auto
    qed
  qed
qed

lemma writeEnrollmentDDM_frame:
  assumes "writeEnrollmentDDM X x s = (e, s')"
  shows "prefix (calls s) (calls s')"
    and "\<forall>r \<in> set (rows s). pk r \<noteq> ''enroll#'' @ x \<longrightarrow> r \<in> set (rows s')"
proof -
  obtain e1 sets s1 where q1: "GetItemsSKBeginsWith (''enroll#'' @ x) ''set#'' s = (e1, sets, s1)"
    by (metis prod_cases3)
  note f1 = GetItemsSKBeginsWith_frame [OF q1]
  obtain e2 ks s2 where q2:
    "collectSetDeclarations (map (\<lambda>set. TrimPrefix (sk set) ''set#'') sets) [] s1 = (e2, ks, s2)"
    by (metis prod_cases3)
  note f2 = collectSetDeclarations_frame [OF q2]
  obtain e3 ds s3 where q3: "addDeclarationData X ks [] s2 = (e3, ds, s3)"
    by (metis prod_cases3)
  note f3 = addDeclarationData_frame [OF q3]
  have r3: "rows s3 = rows s" using f1 f2 f3 by simp
  have c3: "prefix (calls s) (calls s3)"
    using f1 f2 f3 prefix_order.order_trans by blast
  have both: "prefix (calls s) (calls s')
      \<and> (\<forall>r \<in> set (rows s). pk r \<noteq> ''enroll#'' @ x \<longrightarrow> r \<in> set (rows s'))"
  proof (cases "e1 = None \<and> e2 = None \<and> e3 = None")
    case False
    then have "rows s' = rows s \<and> prefix (calls s) (calls s')"
      using assms q1 q2 q3 f1 f2 f3 c3
      by (auto simp: writeEnrollmentDDM_def split: option.splits)
    then show ?thesis by simp
  next
    case True
    show ?thesis
    proof (cases "marshalDeclarationItems X ds")
      case (Inl a)
      then have "s' = s3" using assms q1 q2 q3 True
        by (auto simp: writeEnrollmentDDM_def)
      then show ?thesis using r3 c3 by simp
    next
      case (Inr diJSON)
      obtain e4 s4 where q4:
        "AddItem (dsGenericItem (''enroll#'' @ x) ''json'' diJSON) s3 = (e4, s4)"
        by (metis surj_pair)
      have f4: "prefix (calls s3) (calls s4)"
        "\<forall>r \<in> set (rows s3). pk r \<noteq> ''enroll#'' @ x \<longrightarrow> r \<in> set (rows s4)"
        using AddItem_frame [OF q4] by (simp_all add: dsGenericItem_def)
      have g4: "prefix (calls s) (calls s4)
          \<and> (\<forall>r \<in> set (rows s). pk r \<noteq> ''enroll#'' @ x \<longrightarrow> r \<in> set (rows s4))"
        using f4 r3 c3 prefix_order.order_trans by auto
      show ?thesis
      proof (cases "e4 = None \<and> (\<exists>t. marshalTokens X ds = Inr t)")
        case False
        then have "s' = s4" using assms q1 q2 q3 q4 True Inr
          by (auto simp: writeEnrollmentDDM_def split: option.splits sum.splits)
        then show ?thesis using g4 by simp
      next
        case t: True
        then obtain tiJSON where ti: "marshalTokens X ds = Inr tiJSON" by blast
        have q5: "AddItem (dsGenericItem (''enroll#'' @ x) ''tokens'' tiJSON) s4 = (e, s')"
          using assms q1 q2 q3 q4 True Inr t ti
          by (auto simp: writeEnrollmentDDM_def)
        have f5: "prefix (calls s4) (calls s')"
          "\<forall>r \<in> set (rows s4). pk r \<noteq> ''enroll#'' @ x \<longrightarrow> r \<in> set (rows s')"
          using AddItem_frame [OF q5] by (simp_all add: dsGenericItem_def)
        show ?thesis
          using g4 f5 prefix_order.order_trans by auto
      qed
    qed
  qed
  from both show "prefix (calls s) (calls s')" ..
  from both show "\<forall>r \<in> set (rows s). pk r \<noteq> ''enroll#'' @ x \<longrightarrow> r \<in> set (rows s')" ..
qed

lemma writeEnrollmentDDMs_append:
  "writeEnrollmentDDMs X pre s = (None, s1) \<Longrightarrow>
     writeEnrollmentDDMs X (pre @ ids) s = writeEnrollmentDDMs X ids s1"
  by (induction pre arbitrary: s) (auto split: prod.splits option.splits)

text \<open>
  C8 (as amended). A cascade over a list of enrollments, in \<open>writeSetDDM\<close> and in
  \<open>writeDeclarationDDM\<close>: when the recomputes of the enrollments \<open>pre\<close> succeed and
  the recompute of the next enrollment \<open>x\<close> fails, the cascade returns that error
  with the state the failed recompute left, whatever enrollments \<open>post\<close> follow:
  they are not recomputed. Nothing is rolled back: the calls made up to the failure
  stay made, and every row of the state before the failed recompute is still there,
  but for the rows of \<open>x\<close> itself.
\<close>

theorem cascade_stops_at_first_failure:
  assumes "writeEnrollmentDDMs X pre s0 = (None, s1)"
    and "writeEnrollmentDDM X x s1 = (Some e, s2)"
  shows "(GetItemsSKBeginsWith (''set#'' @ setName) ''enroll#'' s = (None, its, s0)
          \<and> map (\<lambda>it. TrimPrefix (sk it) ''enroll#'') its = pre @ x # post
          \<longrightarrow> writeSetDDM X setName s = (Some e, s2))
       \<and> (declarationEnrollmentIDs declarationID s = ((pre @ x # post, None), s0)
          \<longrightarrow> writeDeclarationDDM X declarationID s = (Some e, s2))
       \<and> prefix (calls s1) (calls s2)
       \<and> (\<forall>r \<in> set (rows s1). pk r \<noteq> ''enroll#'' @ x \<longrightarrow> r \<in> set (rows s2))"
proof -
  have loop: "writeEnrollmentDDMs X (pre @ x # post) s0 = (Some e, s2)"
    using writeEnrollmentDDMs_append [OF assms(1), of "x # post"] assms(2) by simp
  show ?thesis
    using loop writeEnrollmentDDM_frame [OF assms(2)]
    by (simp add: writeSetDDM_def writeDeclarationDDM_def)
qed


lemma cascade_enumeration:
  "GetItemsSKBeginsWith (''set#'' @ ''G1'') ''enroll#'' cascadeState
     = (None,
        [dsGenericItem ''set#G1'' ''enroll#A'' [], dsGenericItem ''set#G1'' ''enroll#B'' [],
         dsGenericItem ''set#G1'' ''enroll#C'' []],
        cascadeState1)"
  by (simp add: cascadeState1_def cascadeState_def storedState_eq table_defs)

lemma cascade_first: "writeEnrollmentDDMs sampleEnv [''A''] cascadeState1 = (None, cascadeState2)"
  by (simp add: cascadeState1_def cascadeState2_def cascadeState_def storedState_eq
      table_defs storage_defs sample_defs)

lemma cascade_second: "writeEnrollmentDDM sampleEnv ''B'' cascadeState2 = (Some ClientError, cascadeState3)"
  by (simp add: cascadeState3_def cascadeState2_def cascadeState_def storedState_eq
      table_defs storage_defs)

theorem cascade_stops_at_first_failure_witness:
  "writeSetDDM sampleEnv ''G1'' cascadeState = (Some ClientError, cascadeState3)
   \<and> prefix (calls cascadeState2) (calls cascadeState3)"
proof -
  let ?its = "[dsGenericItem ''set#G1'' ''enroll#A'' [], dsGenericItem ''set#G1'' ''enroll#B'' [],
         dsGenericItem ''set#G1'' ''enroll#C'' []]"
  note t = cascade_stops_at_first_failure [OF cascade_first cascade_second,
      of "''G1''" cascadeState ?its "[''C'']"]
  have m: "map (\<lambda>it. TrimPrefix (sk it) ''enroll#'') ?its = [''A''] @ ''B'' # [''C'']"
    by (simp add: dsGenericItem_def TrimPrefix_simps HasPrefix_simps)
  from t cascade_enumeration m show ?thesis by blast
qed

lemma cascade_result: "writeSetDDM sampleEnv ''G1'' cascadeState = (Some ClientError, cascadeState3)"
proof -
  have "writeEnrollmentDDMs sampleEnv ([''A''] @ [''B'', ''C'']) cascadeState1
      = writeEnrollmentDDMs sampleEnv [''B'', ''C''] cascadeState2"
    by (rule writeEnrollmentDDMs_append [OF cascade_first])
  then have "writeEnrollmentDDMs sampleEnv [''A'', ''B'', ''C''] cascadeState1
      = (Some ClientError, cascadeState3)"
    by (simp add: cascade_second)
  then show ?thesis
    using cascade_enumeration
    by (simp add: writeSetDDM_def dsGenericItem_def TrimPrefix_simps HasPrefix_simps)
qed

text \<open>
  In the cascade over \<open>A\<close>, \<open>B\<close>, \<open>C\<close> the recompute of \<open>B\<close> fails. The manifest
  written for \<open>A\<close> stays, but \<open>C\<close> is not recomputed: it has no manifest after the
  cascade, the last call of the cascade is the failed query for \<open>B\<close>, and a
  recompute of \<open>C\<close> run on its own afterwards succeeds.
\<close>

theorem writeSetDDM_later_enrollment_counterexample:
  "fst (writeSetDDM sampleEnv ''G1'' cascadeState) = Some ClientError
   \<and> fst (RetrieveDeclarationItemsJSON ''A'' (snd (writeSetDDM sampleEnv ''G1'' cascadeState)))
       = (''D1;'', None)
   \<and> fst (RetrieveDeclarationItemsJSON ''C'' (snd (writeSetDDM sampleEnv ''G1'' cascadeState)))
       = ([], None)
   \<and> fst (RetrieveDeclarationItemsJSON ''C''
            (snd (writeEnrollmentDDM sampleEnv ''C''
              (snd (writeSetDDM sampleEnv ''G1'' cascadeState)))))
       = (''D1;'', None)
   \<and> calls (snd (writeSetDDM sampleEnv ''G1'' cascadeState))
       = [Query ''set#G1'' ''enroll#'', Query ''enroll#A'' ''set#'',
           Query ''set#G1'' ''dec#'', GetItem ''dec#D1'' ''dec#'',
           PutItem (dsGenericItem ''enroll#A'' ''json'' ''D1;''),
           PutItem (dsGenericItem ''enroll#A'' ''tokens''
             (''D1:{}|'' @ hex (''D1:{}'' @ replicate 32 (CHR ''a'')) @ '';'')),
           Query ''enroll#B'' ''set#'']"
  by (simp add: cascade_result cascadeState3_def cascadeState2_def cascadeState_def
      storedState_eq table_defs storage_defs sample_defs)

end
